theory Spec2Isabelle
  imports Complex_Main
begin

section \<open>Values and errors\<close>

text \<open>
  The notebooks work on NumPy arrays of 64-bit floats. A float is modelled by the real
  number it represents, together with the three special values that a confounds table
  can hold (the first framewise displacement of a run is read as NaN). Comparisons of
  floats are exact, so nothing is lost for them. Arithmetic further below is done on
  \<open>real\<close>: rounding is not modelled.
\<close>

datatype float64 = NaN | NegInf | Num real | PosInf

text \<open>The exceptions the modelled library calls raise.\<close>

datatype error = KeyError | IndexError

text \<open>\<open>x > y\<close> on floats: false as soon as one side is NaN.\<close>

fun np_greater :: "float64 \<Rightarrow> float64 \<Rightarrow> bool" where
  "np_greater (Num x) (Num y) = (y < x)"
| "np_greater (Num x) NegInf = True"
| "np_greater PosInf (Num y) = True"
| "np_greater PosInf NegInf = True"
| "np_greater _ _ = False"

section \<open>Motion censoring (fmri-2-preprocessing, cell 8)\<close>

text \<open>
  \<^verbatim>\<open>
  fd_threshold = 0.2
  fd = df['framewise_displacement'].values
  bad_vols = np.argwhere(fd > fd_threshold).ravel()
  n_bad = bad_vols.shape[0]
  \<close>
  \<open>fd > fd_threshold\<close> is the boolean mask, one entry per volume; \<open>np.argwhere\<close>
  followed by \<open>ravel\<close> lists the positions of its true entries in increasing order.
\<close>

definition fd_threshold :: float64 where
  "fd_threshold = Num 0.2"

definition censor_mask :: "float64 list \<Rightarrow> float64 \<Rightarrow> bool list" where
  "censor_mask fd thr = map (\<lambda>x. np_greater x thr) fd"

definition argwhere :: "bool list \<Rightarrow> nat list" where
  "argwhere m = filter (\<lambda>i. m ! i) [0..<length m]"

definition bad_vols :: "float64 list \<Rightarrow> float64 \<Rightarrow> nat list" where
  "bad_vols fd thr = argwhere (censor_mask fd thr)"

definition n_bad :: "float64 list \<Rightarrow> float64 \<Rightarrow> nat" where
  "n_bad fd thr = length (bad_vols fd thr)"

section \<open>Column extraction from the confounds table (fmri-2-preprocessing, cells 2 and 9)\<close>

text \<open>
  \<^verbatim>\<open>
  df = read_table(confounds_f, sep='\t')
  hm_labels = ['trans_x', 'trans_y', 'trans_z', 'rot_x', 'rot_y', 'rot_z']
  hm = df[hm_labels].values
  ...
  acompcor_n = 5
  acompcor_labels = [f'a_comp_cor_0{n}' for n in range(acompcor_n)]
  acompcor = df.filter(acompcor_labels).values
  \<close>
  A pandas table is a number of rows and a list of named columns; \<open>read_table\<close> gives
  every column a name of its own and as many entries as the table has rows. Two
  different selections are used. \<open>df[labels]\<close> raises KeyError when a label of the list is
  not a column (the text of the message is not modelled), and otherwise returns one
  column per entry of the list, a repeated label giving a repeated column.
  \<open>df.filter(labels)\<close> keeps each label of the list that is a column once, in the order of
  first occurrence in the list, and drops the others without an error. \<open>.values\<close> is the
  selected table as a matrix, one row per row of the table.
\<close>

record data_frame =
  n_rows :: nat
  columns :: "(string \<times> float64 list) list"

definition select_columns ::
  "(string \<times> float64 list) list \<Rightarrow> string list \<Rightarrow> (string \<times> float64 list) list" where
  "select_columns cols labels =
     List.map_filter (\<lambda>l. map_option (\<lambda>c. (l, c)) (map_of cols l)) labels"

definition getitem :: "data_frame \<Rightarrow> string list \<Rightarrow> error + data_frame" where
  "getitem df labels =
     (let missing = filter (\<lambda>l. map_of (columns df) l = None) labels
      in if missing = [] then Inr (df\<lparr>columns := select_columns (columns df) labels\<rparr>)
         else Inl KeyError)"

text \<open>The entries of a list without repetition, each at its first occurrence.\<close>

definition first_occurrences :: "'a list \<Rightarrow> 'a list" where
  "first_occurrences xs = rev (remdups (rev xs))"

definition filter_items :: "data_frame \<Rightarrow> string list \<Rightarrow> data_frame" where
  "filter_items df items =
     df\<lparr>columns := select_columns (columns df) (first_occurrences items)\<rparr>"

definition df_values :: "data_frame \<Rightarrow> float64 list list" where
  "df_values df = map (\<lambda>r. map (\<lambda>(l, c). c ! r) (columns df)) [0..<n_rows df]"

text \<open>The two extraction expressions of the notebook, for any list of labels.\<close>

definition extract_getitem :: "data_frame \<Rightarrow> string list \<Rightarrow> error + float64 list list" where
  "extract_getitem df labels =
     (case getitem df labels of Inl e \<Rightarrow> Inl e | Inr d \<Rightarrow> Inr (df_values d))"

definition extract_filter :: "data_frame \<Rightarrow> string list \<Rightarrow> float64 list list" where
  "extract_filter df labels = df_values (filter_items df labels)"

definition hm_labels :: "string list" where
  "hm_labels = [''trans_x'', ''trans_y'', ''trans_z'', ''rot_x'', ''rot_y'', ''rot_z'']"

definition hm :: "data_frame \<Rightarrow> error + float64 list list" where
  "hm df = extract_getitem df hm_labels"

text \<open>Python's \<open>str\<close> of a natural number, as the f-string formats \<open>n\<close>.\<close>

fun str_nat :: "nat \<Rightarrow> string" where
  "str_nat n =
     (if n < 10 then [char_of (48 + n)] else str_nat (n div 10) @ [char_of (48 + n mod 10)])"

definition acompcor_n :: nat where
  "acompcor_n = 5"

definition acompcor_labels :: "string list" where
  "acompcor_labels = map (\<lambda>n. ''a_comp_cor_0'' @ str_nat n) [0..<acompcor_n]"

definition acompcor :: "data_frame \<Rightarrow> float64 list list" where
  "acompcor df = extract_filter df acompcor_labels"

text \<open>A table with four of the five CompCor columns, used as a concrete input below.\<close>

definition short_table :: data_frame where
  "short_table = \<lparr>n_rows = 2, columns =
     [(''a_comp_cor_00'', [Num 1, Num 2]), (''a_comp_cor_01'', [Num 3, Num 4]),
      (''a_comp_cor_02'', [Num 5, Num 6]), (''a_comp_cor_03'', [Num 7, Num 8]),
      (''framewise_displacement'', [NaN, Num 0.1])]\<rparr>"

section \<open>Motion scrubbers (fmri-2-preprocessing, cell 8, "Construct scrubbers")\<close>

text \<open>
  The cell ends in the comment \<open># Construct scrubbers\<close> with no code under it. The
  notebook describes the scrubbers in its text ("columns of zeros except for the infected
  volume, where a 1 is inserted instead") and the spec in section 4.2; the four
  definitions below follow the spec. A RegressorSet is a matrix given by its rows, one
  per time sample.
\<close>

text \<open>
  Modelled from the spec: the indicator column of a flagged sample, "length T, all zeros
  except a 1 at row i". The notebook's code for it is missing (empty exercise cell).
\<close>

definition scrubber :: "nat \<Rightarrow> nat \<Rightarrow> real list" where
  "scrubber T i = map (\<lambda>r. if r = i then 1 else 0) [0..<T]"

text \<open>
  Modelled from the spec: "for each true entry at index i, emit one indicator column ...
  in ascending index order". The flagged indices are those \<open>np.argwhere\<close> returns for the
  mask; the notebook's code that builds the columns is missing.
\<close>

definition scrubbers :: "bool list \<Rightarrow> real list list" where
  "scrubbers msk = map (scrubber (length msk)) (argwhere msk)"

text \<open>
  Modelled from the spec: columns "appended to the RegressorSet", that is, row \<open>r\<close> of the
  result is row \<open>r\<close> of the RegressorSet followed by entry \<open>r\<close> of every new column. The
  notebook's code for it is missing (cell 10, "Column-stack confound variables").
\<close>

definition column_stack :: "real list list \<Rightarrow> real list list \<Rightarrow> real list list" where
  "column_stack X cols = map (\<lambda>r. X ! r @ map (\<lambda>c. c ! r) cols) [0..<length X]"

text \<open>
  Modelled from the spec: the emission step of section 4.2, which appends the indicator
  columns of a censor mask to a RegressorSet. The notebook's code for it is missing.
\<close>

definition append_scrubbers :: "real list list \<Rightarrow> bool list \<Rightarrow> real list list" where
  "append_scrubbers X msk = column_stack X (scrubbers msk)"

section \<open>Convolution with the HRF (experimental-design notebook, cell 6)\<close>

text \<open>
  The cell holds only the comment \<open># Convolve impulses with HRF and plot\<close>; the text
  above it asks the reader to convolve the HRF with the impulse series. Section 4.4 of
  the spec describes the operation. The arithmetic is exact: the entries are reals.
\<close>

text \<open>
  Modelled from the spec: "full discrete convolution of events with kernel, producing a
  sequence of length len(events) + len(kernel) - 1", entry \<open>n\<close> being the sum over \<open>m\<close> of
  \<open>events[m] * kernel[n - m]\<close>. The call is missing from the notebook (empty exercise
  cell). The spec gives the operation no failure case, so the model has none; lengths
  are natural numbers, so two empty sequences give the empty sequence.
\<close>

definition convolve :: "real list \<Rightarrow> real list \<Rightarrow> real list" where
  "convolve events kern =
     map (\<lambda>n. \<Sum>m\<leftarrow>[0..<length events].
                 if m \<le> n \<and> n - m < length kern then events ! m * kern ! (n - m) else 0)
         [0..<length events + length kern - 1]"

section \<open>Block designs (experimental-design notebook, cells 7 and 8)\<close>

text \<open>
  \<^verbatim>\<open>
  stim_duration = 15
  face_onsets = [10, 60, 110]
  house_onsets = [35, 85, 135]
  face_blocks = np.zeros(n_trs)
  for onset in face_onsets:
      face_blocks[onset:onset + stim_duration] = 1
  \<close>
  A basic slice \<open>v[lo:hi]\<close> never fails: a negative bound counts from the end, and both
  bounds are then cut to the range \<open>0..len(v)\<close>; an empty or reversed range selects
  nothing. Assigning a scalar to the slice overwrites the selected entries. The loop
  runs over the onsets in list order.
\<close>

definition duration :: nat where
  "duration = 320"

definition tr :: nat where
  "tr = 2"

definition n_trs :: nat where
  "n_trs = duration div tr"

definition slice_bound :: "int \<Rightarrow> nat \<Rightarrow> nat" where
  "slice_bound i n = (if i < 0 then nat (max (i + int n) 0) else min (nat i) n)"

definition slice_assign :: "'a list \<Rightarrow> int \<Rightarrow> int \<Rightarrow> 'a \<Rightarrow> 'a list" where
  "slice_assign v lo hi x =
     (let l = slice_bound lo (length v); h = slice_bound hi (length v)
      in map (\<lambda>j. if l \<le> j \<and> j < h then x else v ! j) [0..<length v])"

definition blocks :: "nat \<Rightarrow> int list \<Rightarrow> int \<Rightarrow> real list" where
  "blocks n starts dur =
     fold (\<lambda>onset b. slice_assign b onset (onset + dur) 1) starts (replicate n 0)"

definition stim_duration :: int where
  "stim_duration = 15"

definition face_blocks :: "real list" where
  "face_blocks = blocks n_trs [10, 60, 110] stim_duration"

definition house_blocks :: "real list" where
  "house_blocks = blocks n_trs [35, 85, 135] stim_duration"

section \<open>Event-related designs (experimental-design notebook, cells 12 and 13)\<close>

















section \<open>Properties of the censor mask\<close>

lemma length_censor_mask: "length (censor_mask fd thr) = length fd"
  by (simp add: censor_mask_def)

lemma censor_mask_nth:
  "i < length fd \<Longrightarrow> censor_mask fd thr ! i = np_greater (fd ! i) thr"
  by (simp add: censor_mask_def)

lemma set_argwhere: "set (argwhere m) = {i. i < length m \<and> m ! i}"
  by (auto simp: argwhere_def)

lemma sorted_argwhere: "sorted_wrt (<) (argwhere m)"
  by (simp add: argwhere_def sorted_wrt_filter)

lemma distinct_argwhere: "distinct (argwhere m)"
  by (simp add: argwhere_def)

text \<open>
  Claim C1. The censor mask has one entry per sample of the displacement series, and
  entry \<open>i\<close> is true exactly when \<open>d[i] > t\<close> with strict inequality: a sample equal to
  the threshold is not censored (nor is a NaN sample), and \<open>bad_vols\<close> holds exactly the
  positions of the true entries.
\<close>

theorem censor_mask_strict:
  "length (censor_mask fd (Num t)) = length fd \<and>
   (\<forall>i<length fd. \<forall>x. fd ! i = Num x \<longrightarrow> (censor_mask fd (Num t) ! i \<longleftrightarrow> t < x)) \<and>
   (\<forall>i<length fd. fd ! i = Num t \<longrightarrow> \<not> censor_mask fd (Num t) ! i) \<and>
   (\<forall>i<length fd. fd ! i = NaN \<longrightarrow> \<not> censor_mask fd (Num t) ! i) \<and>
   (\<forall>i<length fd. censor_mask fd (Num t) ! i \<longleftrightarrow> np_greater (fd ! i) (Num t)) \<and>
   (\<forall>i. i \<in> set (bad_vols fd (Num t)) \<longleftrightarrow> i < length fd \<and> np_greater (fd ! i) (Num t))"
proof -
  have "i \<in> set (bad_vols fd (Num t)) \<longleftrightarrow> i < length fd \<and> np_greater (fd ! i) (Num t)" for i
    unfolding bad_vols_def set_argwhere
    by (auto simp: length_censor_mask censor_mask_nth)
  then show ?thesis
    by (simp add: length_censor_mask censor_mask_nth)
qed

theorem censor_mask_strict_witness:
  "length (censor_mask [NaN, Num 0.2, Num 0.25] fd_threshold) = 3 \<and>
   \<not> censor_mask [NaN, Num 0.2, Num 0.25] fd_threshold ! 0 \<and>
   \<not> censor_mask [NaN, Num 0.2, Num 0.25] fd_threshold ! 1 \<and>
   censor_mask [NaN, Num 0.2, Num 0.25] fd_threshold ! 2 \<and>
   2 \<in> set (bad_vols [NaN, Num 0.2, Num 0.25] fd_threshold)"
  using censor_mask_strict [of "[NaN, Num 0.2, Num 0.25]" "0.2"]
  by (simp add: fd_threshold_def)

section \<open>Properties of the block construction\<close>

lemma length_slice_assign: "length (slice_assign v lo hi x) = length v"
  by (simp add: slice_assign_def Let_def)

lemma slice_assign_nth:
  "j < length v \<Longrightarrow> slice_assign v lo hi x ! j =
     (if slice_bound lo (length v) \<le> j \<and> j < slice_bound hi (length v) then x else v ! j)"
  by (simp add: slice_assign_def Let_def)

lemma slice_bound_nonneg:
  "0 \<le> lo \<Longrightarrow> 0 \<le> hi \<Longrightarrow> j < n \<Longrightarrow>
     (slice_bound lo n \<le> j \<and> j < slice_bound hi n) \<longleftrightarrow> (lo \<le> int j \<and> int j < hi)"
  by (auto simp: slice_bound_def)

lemma length_fold_slice:
  "length (fold (\<lambda>onset b. slice_assign b onset (onset + dur) x) starts v) = length v"
  by (induction starts arbitrary: v) (simp_all add: length_slice_assign)

lemma fold_slice_values:
  "set (fold (\<lambda>onset b. slice_assign b onset (onset + dur) x) starts v) \<subseteq> insert x (set v)"
proof (induction starts arbitrary: v)
  case Nil
  then show ?case by auto
next
  case (Cons a starts)
  have "set (slice_assign v a (a + dur) x) \<subseteq> insert x (set v)"
    by (auto simp: slice_assign_def Let_def)
  with Cons[of "slice_assign v a (a + dur) x"] show ?case by auto
qed

lemma fold_slice_nth:
  "\<forall>a\<in>set starts. 0 \<le> a \<Longrightarrow> 0 \<le> dur \<Longrightarrow> j < length v \<Longrightarrow>
   fold (\<lambda>onset b. slice_assign b onset (onset + dur) x) starts v ! j =
     (if \<exists>a\<in>set starts. a \<le> int j \<and> int j < a + dur then x else v ! j)"
proof (induction starts arbitrary: v)
  case Nil
  then show ?case by simp
next
  case (Cons a starts)
  let ?w = "slice_assign v a (a + dur) x"
  have w: "?w ! j = (if a \<le> int j \<and> int j < a + dur then x else v ! j)"
    using Cons.prems by (simp add: slice_assign_nth slice_bound_nonneg)
  have "fold (\<lambda>onset b. slice_assign b onset (onset + dur) x) starts ?w ! j =
     (if \<exists>a\<in>set starts. a \<le> int j \<and> int j < a + dur then x else ?w ! j)"
    using Cons.prems by (intro Cons.IH) (simp_all add: length_slice_assign)
  with w show ?case by auto
qed

text \<open>
  Claim C10. The boxcar construction always yields a vector of \<open>n_trs\<close> entries, each
  0 or 1, whatever the onsets and the duration are: a slice that runs past the end of
  the series is cut there. For onsets and a duration that are not negative, entry \<open>j\<close>
  is 1 exactly when \<open>j\<close> lies in \<open>[onset, onset + stim_duration)\<close> for some onset.
  (The model has no error value because no step of the loop can raise.)
\<close>

theorem blocks_total:
  "length (blocks n starts dur) = n \<and>
   (\<forall>x\<in>set (blocks n starts dur). x = 0 \<or> x = 1) \<and>
   ((\<forall>a\<in>set starts. 0 \<le> a) \<and> 0 \<le> dur \<longrightarrow>
      (\<forall>j<n. blocks n starts dur ! j =
         (if \<exists>a\<in>set starts. a \<le> int j \<and> int j < a + dur then 1 else 0)))"
proof -
  have "set (blocks n starts dur) \<subseteq> insert 1 (set (replicate n 0))"
    unfolding blocks_def by (rule fold_slice_values)
  then have "\<forall>x\<in>set (blocks n starts dur). x = 0 \<or> x = 1"
    by auto
  moreover have "length (blocks n starts dur) = n"
    by (simp add: blocks_def length_fold_slice)
  moreover have "blocks n starts dur ! j =
         (if \<exists>a\<in>set starts. a \<le> int j \<and> int j < a + dur then 1 else 0)"
    if "\<forall>a\<in>set starts. 0 \<le> a" "0 \<le> dur" "j < n" for j
    using that by (simp add: blocks_def fold_slice_nth)
  ultimately show ?thesis by blast
qed

text \<open>The last block of the witness starts at 9 and is cut at the end of a series of 12.\<close>

theorem blocks_total_witness:
  "length (blocks 12 [2, 9] 5) = 12 \<and>
   blocks 12 [2, 9] 5 ! 1 = 0 \<and> blocks 12 [2, 9] 5 ! 2 = 1 \<and>
   blocks 12 [2, 9] 5 ! 6 = 1 \<and> blocks 12 [2, 9] 5 ! 7 = 0 \<and>
   blocks 12 [2, 9] 5 ! 11 = 1"
  using blocks_total [of 12 "[2, 9]" 5] by simp

section \<open>Properties of the event-related design\<close>
























section \<open>Properties of the column extraction\<close>

lemma acompcor_labels_eq:
  "acompcor_labels =
     [''a_comp_cor_00'', ''a_comp_cor_01'', ''a_comp_cor_02'', ''a_comp_cor_03'', ''a_comp_cor_04'']"
  by code_simp

lemma select_columns_all:
  "\<forall>l\<in>set labels. map_of cols l \<noteq> None \<Longrightarrow>
   length (select_columns cols labels) = length labels \<and>
   (\<forall>k<length labels. \<exists>c. map_of cols (labels ! k) = Some c \<and>
        select_columns cols labels ! k = (labels ! k, c))"
proof (induction labels)
  case Nil
  then show ?case by (simp add: select_columns_def)
next
  case (Cons l labels)
  then obtain c where c: "map_of cols l = Some c"
    by auto
  then have s: "select_columns cols (l # labels) = (l, c) # select_columns cols labels"
    by (simp add: select_columns_def)
  have ih: "length (select_columns cols labels) = length labels"
    "\<forall>k<length labels. \<exists>c. map_of cols (labels ! k) = Some c \<and>
        select_columns cols labels ! k = (labels ! k, c)"
    using Cons by simp_all
  show ?case
  proof (intro conjI allI impI)
    show "length (select_columns cols (l # labels)) = length (l # labels)"
      using s ih(1) by simp
  next
    fix k
    assume "k < length (l # labels)"
    then show "\<exists>c. map_of cols ((l # labels) ! k) = Some c \<and>
        select_columns cols (l # labels) ! k = ((l # labels) ! k, c)"
      using s c ih(2) by (cases k) simp_all
  qed
qed

text \<open>
  The selection \<open>df[labels].values\<close>, used for the head-motion parameters: when every
  label is a column, entry \<open>k\<close> of row \<open>r\<close> is entry \<open>r\<close> of the column named by the
  \<open>k\<close>-th label; when a label is not a column, KeyError.
\<close>

lemma extract_getitem_present:
  assumes "\<forall>l\<in>set labels. map_of (columns df) l \<noteq> None"
  shows "\<exists>M. extract_getitem df labels = Inr M \<and> length M = n_rows df \<and>
     (\<forall>r<n_rows df. length (M ! r) = length labels \<and>
        (\<forall>k<length labels. \<exists>c. map_of (columns df) (labels ! k) = Some c \<and>
             M ! r ! k = c ! r))"
proof -
  let ?M = "df_values (df\<lparr>columns := select_columns (columns df) labels\<rparr>)"
  note a = select_columns_all[OF assms]
  have "filter (\<lambda>l. map_of (columns df) l = None) labels = []"
    using assms by (simp add: filter_empty_conv)
  then have e: "extract_getitem df labels = Inr ?M"
    by (simp add: extract_getitem_def getitem_def)
  have "length (?M ! r) = length labels \<and>
        (\<forall>k<length labels. \<exists>c. map_of (columns df) (labels ! k) = Some c \<and>
             ?M ! r ! k = c ! r)" if r: "r < n_rows df" for r
  proof (intro conjI allI impI)
    show "length (?M ! r) = length labels"
      using r a by (simp add: df_values_def)
  next
    fix k
    assume k: "k < length labels"
    with a obtain c where c: "map_of (columns df) (labels ! k) = Some c"
      "select_columns (columns df) labels ! k = (labels ! k, c)"
      by blast
    have "?M ! r ! k = c ! r"
      using r k a c(2) by (simp add: df_values_def)
    with c(1) show "\<exists>c. map_of (columns df) (labels ! k) = Some c \<and> ?M ! r ! k = c ! r"
      by blast
  qed
  moreover have "length ?M = n_rows df"
    by (simp add: df_values_def)
  ultimately show ?thesis using e by blast
qed

lemma extract_getitem_absent:
  assumes "l \<in> set labels" and "map_of (columns df) l = None"
  shows "extract_getitem df labels = Inl KeyError"
proof -
  have "l \<in> set (filter (\<lambda>l. map_of (columns df) l = None) labels)"
    using assms by simp
  then have "filter (\<lambda>l. map_of (columns df) l = None) labels \<noteq> []"
    by (metis empty_iff empty_set)
  then show ?thesis
    by (simp add: extract_getitem_def getitem_def)
qed

text \<open>
  Claim C5, at a table that lacks one of the requested columns. \<open>a_comp_cor_04\<close> is
  requested by the CompCor extraction and is not a column of the table. The claim asks
  for a failure; \<open>df.filter\<close> returns the four columns that are present instead, where
  the selection \<open>df[labels]\<close> of the head-motion extraction raises KeyError for the same
  labels.
\<close>

theorem acompcor_drops_missing_column:
  "''a_comp_cor_04'' \<in> set acompcor_labels \<and>
   map_of (columns short_table) ''a_comp_cor_04'' = None \<and>
   acompcor short_table = [[Num 1, Num 3, Num 5, Num 7], [Num 2, Num 4, Num 6, Num 8]] \<and>
   extract_getitem short_table acompcor_labels = Inl KeyError"
proof -
  have u: "first_occurrences
      [''a_comp_cor_00'', ''a_comp_cor_01'', ''a_comp_cor_02'', ''a_comp_cor_03'', ''a_comp_cor_04''] =
      [''a_comp_cor_00'', ''a_comp_cor_01'', ''a_comp_cor_02'', ''a_comp_cor_03'', ''a_comp_cor_04'']"
    by (simp add: first_occurrences_def)
  show ?thesis
    by (simp add: short_table_def acompcor_def extract_filter_def filter_items_def df_values_def
        select_columns_def acompcor_labels_eq u extract_getitem_def getitem_def upt_rec)
qed

section \<open>Properties of the scrubbers\<close>

lemma length_argwhere: "length (argwhere m) = length (filter (\<lambda>b. b) m)"
proof -
  have "filter (\<lambda>b. b) (map (\<lambda>i. m ! i) [0..<length m]) =
        map (\<lambda>i. m ! i) (filter (\<lambda>i. m ! i) [0..<length m])"
    by (simp add: filter_map comp_def)
  then have "length (filter (\<lambda>b. b) m) = length (filter (\<lambda>i. m ! i) [0..<length m])"
    by (simp add: map_nth)
  then show ?thesis by (simp add: argwhere_def)
qed

lemma argwhere_all_false:
  assumes "\<forall>b\<in>set m. \<not> b"
  shows "argwhere m = []"
proof -
  have "\<not> m ! i" if "i < length m" for i
    using that assms nth_mem by blast
  then show ?thesis
    unfolding argwhere_def filter_empty_conv by simp
qed

lemma scrubber_nth: "r < T \<Longrightarrow> scrubber T i ! r = (if r = i then 1 else 0)"
  by (simp add: scrubber_def)

lemma length_scrubber: "length (scrubber T i) = T"
  by (simp add: scrubber_def)

lemma column_stack_Nil: "column_stack X [] = X"
  by (simp add: column_stack_def map_nth)

lemma append_scrubbers_row:
  "r < length X \<Longrightarrow> length X = length msk \<Longrightarrow>
   append_scrubbers X msk ! r = X ! r @ map (\<lambda>i. if r = i then 1 else 0) (argwhere msk)"
  by (simp add: append_scrubbers_def column_stack_def scrubbers_def scrubber_nth comp_def)

lemma censor_example:
  "censor_mask [Num 0.1, Num 0.3, Num 0.6, Num 0.1, Num 0.9] (Num 0.5) =
     [False, False, True, False, True]"
  by (simp add: censor_mask_def)

lemma argwhere_example: "argwhere [False, False, True, False, True] = [2, 4]"
  by code_simp

lemma scrubbers_example:
  "scrubbers [False, False, True, False, True] = [[0, 0, 1, 0, 0], [0, 0, 0, 0, 1]]"
  unfolding scrubbers_def argwhere_example by (simp add: scrubber_def upt_rec)

text \<open>
  Claim C3. The emission step appends one indicator column per true entry of the censor
  mask; column \<open>j\<close> has \<open>T\<close> entries, all 0 except a 1 at the \<open>j\<close>-th flagged index, and
  the flagged indices come in ascending order, so row \<open>r\<close> of the RegressorSet is
  extended by the entries \<open>r = i\<close> for the flagged \<open>i\<close> in that order. A mask with no
  true entry appends nothing and leaves the RegressorSet as it is. For the displacements
  0.1, 0.3, 0.6, 0.1, 0.9 and the threshold 0.5 the columns are the indicators of rows 2
  and 4.
\<close>

theorem scrubbers_spec:
  "length (scrubbers msk) = length (filter (\<lambda>b. b) msk) \<and>
   (\<forall>j<length (scrubbers msk).
      argwhere msk ! j < length msk \<and> msk ! (argwhere msk ! j) \<and>
      length (scrubbers msk ! j) = length msk \<and>
      (\<forall>r<length msk. scrubbers msk ! j ! r = (if r = argwhere msk ! j then 1 else 0))) \<and>
   sorted_wrt (<) (argwhere msk) \<and>
   (\<forall>r<length X. length X = length msk \<longrightarrow>
      append_scrubbers X msk ! r =
        X ! r @ map (\<lambda>i. if r = i then 1 else 0) (argwhere msk)) \<and>
   ((\<forall>b\<in>set msk. \<not> b) \<longrightarrow> scrubbers msk = [] \<and> append_scrubbers X msk = X) \<and>
   scrubbers (censor_mask [Num 0.1, Num 0.3, Num 0.6, Num 0.1, Num 0.9] (Num 0.5)) =
     [[0, 0, 1, 0, 0], [0, 0, 0, 0, 1]]"
proof -
  have 1: "length (scrubbers msk) = length (filter (\<lambda>b. b) msk)"
    by (simp add: scrubbers_def length_argwhere)
  have 2: "\<forall>j<length (scrubbers msk).
      argwhere msk ! j < length msk \<and> msk ! (argwhere msk ! j) \<and>
      length (scrubbers msk ! j) = length msk \<and>
      (\<forall>r<length msk. scrubbers msk ! j ! r = (if r = argwhere msk ! j then 1 else 0))"
  proof (intro allI impI)
    fix j
    assume "j < length (scrubbers msk)"
    then have j: "j < length (argwhere msk)"
      by (simp add: scrubbers_def)
    then have "argwhere msk ! j \<in> set (argwhere msk)"
      by simp
    then have "argwhere msk ! j < length msk \<and> msk ! (argwhere msk ! j)"
      by (simp add: set_argwhere)
    then show "argwhere msk ! j < length msk \<and> msk ! (argwhere msk ! j) \<and>
      length (scrubbers msk ! j) = length msk \<and>
      (\<forall>r<length msk. scrubbers msk ! j ! r = (if r = argwhere msk ! j then 1 else 0))"
      using j by (simp add: scrubbers_def scrubber_nth length_scrubber)
  qed
  have 3: "sorted_wrt (<) (argwhere msk)"
    by (rule sorted_argwhere)
  have 4: "\<forall>r<length X. length X = length msk \<longrightarrow>
      append_scrubbers X msk ! r =
        X ! r @ map (\<lambda>i. if r = i then 1 else 0) (argwhere msk)"
    by (simp add: append_scrubbers_row)
  have 5: "(\<forall>b\<in>set msk. \<not> b) \<longrightarrow> scrubbers msk = [] \<and> append_scrubbers X msk = X"
    by (simp add: scrubbers_def append_scrubbers_def argwhere_all_false column_stack_Nil)
  have 6: "scrubbers (censor_mask [Num 0.1, Num 0.3, Num 0.6, Num 0.1, Num 0.9] (Num 0.5)) =
     [[0, 0, 1, 0, 0], [0, 0, 0, 0, 1]]"
    by (simp only: censor_example scrubbers_example)
  show ?thesis
    by (intro conjI 1 2 3 4 5 6)
qed

theorem scrubbers_spec_witness:
  "scrubbers [False, True, False] = [[0, 1, 0]] \<and>
   append_scrubbers [[5, 6], [7, 8], [9, 10]] [False, True, False] ! 1 = [7, 8, 1] \<and>
   append_scrubbers [[5, 6], [7, 8], [9, 10]] [False, False, False] = [[5, 6], [7, 8], [9, 10]]"
proof -
  have a: "argwhere [False, True, False] = [1]" by code_simp
  have b: "scrubbers [False, True, False] = [[0, 1, 0]]"
    unfolding scrubbers_def a by (simp add: scrubber_def upt_rec)
  have "\<forall>r<length [[5, 6], [7, 8], [9, 10::real]].
      length [[5, 6], [7, 8], [9, 10::real]] = length [False, True, False] \<longrightarrow>
      append_scrubbers [[5, 6], [7, 8], [9, 10]] [False, True, False] ! r =
        [[5, 6], [7, 8], [9, 10]] ! r @
        map (\<lambda>i. if r = i then 1 else 0) (argwhere [False, True, False])"
    using scrubbers_spec[of "[False, True, False]" "[[5, 6], [7, 8], [9, 10]]"]
    by (elim conjE)
  then have c: "append_scrubbers [[5, 6], [7, 8], [9, 10]] [False, True, False] ! 1 = [7, 8, 1]"
    unfolding a by simp
  have "(\<forall>b\<in>set [False, False, False]. \<not> b) \<longrightarrow> scrubbers [False, False, False] = [] \<and>
      append_scrubbers [[5, 6], [7, 8], [9, 10]] [False, False, False] =
        [[5, 6], [7, 8], [9, 10]]"
    using scrubbers_spec[of "[False, False, False]" "[[5, 6], [7, 8], [9, 10]]"]
    by (elim conjE)
  then have d: "append_scrubbers [[5, 6], [7, 8], [9, 10]] [False, False, False] =
      [[5, 6], [7, 8], [9, 10]]"
    by simp
  from b c d show ?thesis by (intro conjI)
qed

section \<open>Properties of the convolution\<close>

lemma length_convolve: "length (convolve e k) = length e + length k - 1"
  by (simp add: convolve_def)

lemma convolve_nth:
  assumes "n < length e + length k - 1"
  shows "convolve e k ! n =
     (\<Sum>m\<leftarrow>[0..<length e]. if m \<le> n \<and> n - m < length k then e ! m * k ! (n - m) else 0)"
proof -
  have "[0..<length e + length k - 1] ! n = n"
    using assms by simp
  with assms show ?thesis
    by (simp add: convolve_def cong: if_cong)
qed

lemma convolve_zero_events:
  "convolve (replicate n 0) k = replicate (n + length k - 1) 0"
proof (rule nth_equalityI)
  show "length (convolve (replicate n 0) k) = length (replicate (n + length k - 1) (0::real))"
    by (simp add: length_convolve)
next
  fix i
  assume "i < length (convolve (replicate n 0) k)"
  then have i: "i < n + length k - 1"
    by (simp add: length_convolve)
  have "(\<Sum>m\<leftarrow>[0..<n]. if m \<le> i \<and> i - m < length k
            then replicate n (0::real) ! m * k ! (i - m) else 0) =
        (\<Sum>m\<leftarrow>[0..<n]. 0)"
    by (intro arg_cong[where f = sum_list] map_cong) simp_all
  then show "convolve (replicate n 0) k ! i = replicate (n + length k - 1) 0 ! i"
    using i by (simp add: convolve_nth)
qed

text \<open>
  The scenario of the spec's section 8: two impulses and the kernel 1, 0.5, 0.25; the
  caller keeps the first ten entries.
\<close>

lemma convolve_scenario:
  "take 10 (convolve [0, 0, 1, 0, 0, 0, 1, 0, 0, 0] [1, 0.5, 0.25]) =
     [0, 0, 1, 0.5, 0.25, 0, 1, 0.5, 0.25, 0]"
  by code_simp

text \<open>
  Claim C6. For every events sequence and every kernel the convolution is a sequence of
  \<open>len(events) + len(kernel) - 1\<close> entries, entry \<open>n\<close> being the sum of the products
  \<open>events[m] * kernel[n - m]\<close>; for an all-zero events sequence of any length and any
  kernel it is the all-zero sequence of that length. The operation has no failure case.
\<close>

theorem convolve_length_zero:
  "length (convolve e k) = length e + length k - 1 \<and>
   convolve (replicate n 0) k = replicate (n + length k - 1) 0 \<and>
   (\<forall>i<length e + length k - 1.
      convolve e k ! i =
        (\<Sum>m\<leftarrow>[0..<length e]. if m \<le> i \<and> i - m < length k then e ! m * k ! (i - m) else 0))"
  using length_convolve[of e k] convolve_zero_events[of n k] convolve_nth[of _ e k]
  by blast

theorem convolve_length_zero_witness:
  "convolve [0, 0, 0] [1, 0.5, 0.25] = [0, 0, 0, 0, 0] \<and>
   length (convolve [0, 0, 1] [1, 0.5, 0.25]) = 5 \<and>
   convolve [0, 0, 1] [1, 0.5, 0.25] ! 3 = 0.5"
proof -
  note t = convolve_length_zero [of "[0, 0, 1]" "[1, 0.5, 0.25]" 3]
  have a: "convolve (replicate 3 0) [1, 0.5, 0.25] = replicate (3 + length [1, 0.5, 0.25::real] - 1) 0"
    using t by (elim conjE)
  have b: "length (convolve [0, 0, 1] [1, 0.5, 0.25]) = 5"
    using t by simp
  have c: "convolve [0, 0, 1] [1, 0.5, 0.25] ! 3 = 0.5"
    by code_simp
  from a b c show ?thesis
    by (simp add: numeral_eq_Suc)
qed

end
